theory Spec2Isabelle
  imports Main
begin

section \<open>Strings: number rendering, percent-encoding, base64\<close>

text \<open>
  Strings are byte lists (the UTF-8 encoding of the JavaScript string). Numbers that reach a
  template literal or \<open>toString\<close> are integers and are rendered in decimal.
\<close>

definition digit_char :: "nat \<Rightarrow> char" where
  "digit_char n = ''0123456789'' ! (n mod 10)"

fun string_of_nat :: "nat \<Rightarrow> string" where
  "string_of_nat n =
     (if n < 10 then [digit_char n] else string_of_nat (n div 10) @ [digit_char n])"

declare string_of_nat.simps [simp del]

definition string_of_int :: "int \<Rightarrow> string" where
  "string_of_int i = (if i < 0 then CHR ''-'' # string_of_nat (nat (- i)) else string_of_nat (nat i))"

definition hex_char :: "nat \<Rightarrow> char" where
  "hex_char n = ''0123456789ABCDEF'' ! (n mod 16)"

definition percent_byte :: "char \<Rightarrow> string" where
  "percent_byte c = [CHR ''%'', hex_char ((of_char c :: nat) div 16), hex_char (of_char c :: nat)]"

definition alnum :: "char set" where
  "alnum = set ''ABCDEFGHIJKLMNOPQRSTUVWXYZabcdefghijklmnopqrstuvwxyz0123456789''"

text \<open>The serializer behind \<open>URLSearchParams.toString()\<close> (application/x-www-form-urlencoded).\<close>

definition form_byte :: "char \<Rightarrow> string" where
  "form_byte c =
     (if c = CHR '' '' then ''+''
      else if c \<in> alnum \<or> c \<in> set ''*-._'' then [c]
      else percent_byte c)"

definition form_encode :: "string \<Rightarrow> string" where
  "form_encode s = concat (map form_byte s)"

fun join_amp :: "string list \<Rightarrow> string" where
  "join_amp [] = ''''"
| "join_amp [p] = p"
| "join_amp (p # ps) = p @ ''&'' @ join_amp ps"

definition URLSearchParams_toString :: "(string \<times> string) list \<Rightarrow> string" where
  "URLSearchParams_toString params =
     join_amp (map (\<lambda>(k, v). form_encode k @ ''='' @ form_encode v) params)"

text \<open>\<open>encodeURIComponent\<close>: everything but the unreserved marks is percent-encoded.\<close>

definition encodeURIComponent :: "string \<Rightarrow> string" where
  "encodeURIComponent s =
     concat (map (\<lambda>c. if c \<in> alnum \<or> c \<in> set ''-_.!~*'' \<or> c = CHR 0x27 \<or> c \<in> set ''()''
                       then [c] else percent_byte c) s)"

text \<open>\<open>Buffer.from(s).toString('base64')\<close>.\<close>

definition b64_char :: "nat \<Rightarrow> char" where
  "b64_char n =
     ''ABCDEFGHIJKLMNOPQRSTUVWXYZabcdefghijklmnopqrstuvwxyz0123456789+/'' ! (n mod 64)"

fun base64 :: "string \<Rightarrow> string" where
  "base64 [] = ''''"
| "base64 [a] =
     (let x = (of_char a :: nat)
      in [b64_char (x div 4), b64_char ((x mod 4) * 16), CHR ''='', CHR ''=''])"
| "base64 [a, b] =
     (let x = (of_char a :: nat); y = (of_char b :: nat)
      in [b64_char (x div 4), b64_char ((x mod 4) * 16 + y div 16),
          b64_char ((y mod 16) * 4), CHR ''=''])"
| "base64 (a # b # c # rest) =
     (let x = (of_char a :: nat); y = (of_char b :: nat); z = (of_char c :: nat)
      in [b64_char (x div 4), b64_char ((x mod 4) * 16 + y div 16),
          b64_char ((y mod 16) * 4 + z div 64), b64_char z] @ base64 rest)"

section \<open>JavaScript values\<close>

text \<open>
  The remote payloads are untyped (\<open>any\<close>). A value is what \<open>JSON.parse\<close> can produce, plus
  \<open>undefined\<close>, which a read of a missing property yields. Numbers are integers.
\<close>

datatype jsval =
    JUndefined
  | JNull
  | JBool bool
  | JNum int
  | JStr string
  | JArr "jsval list"
  | JObj "(string \<times> jsval) list"

datatype error =
    Error string
  | TypeError
  | FetchError
  | SyntaxError

definition nullish :: "jsval \<Rightarrow> bool" where
  "nullish v = (v = JUndefined \<or> v = JNull)"

text \<open>Truthiness, as \<open>&&\<close>, \<open>||\<close> and \<open>if\<close> test it.\<close>

fun truthy :: "jsval \<Rightarrow> bool" where
  "truthy JUndefined = False"
| "truthy JNull = False"
| "truthy (JBool b) = b"
| "truthy (JNum n) = (n \<noteq> 0)"
| "truthy (JStr s) = (s \<noteq> '''')"
| "truthy (JArr xs) = True"
| "truthy (JObj kvs) = True"

text \<open>
  \<open>v.k\<close> for a value that is neither \<open>null\<close> nor \<open>undefined\<close> (reading those throws, which
  each caller checks with \<open>nullish\<close> first). None of the property names this program reads
  exists on a string, number, boolean or array, so the read is \<open>undefined\<close> there.
\<close>

fun get :: "jsval \<Rightarrow> string \<Rightarrow> jsval" where
  "get (JObj kvs) k = (case map_of kvs k of Some v \<Rightarrow> v | None \<Rightarrow> JUndefined)"
| "get v k = JUndefined"

text \<open>\<open>v[i]\<close> for a value that is neither \<open>null\<close> nor \<open>undefined\<close>.\<close>

fun at :: "jsval \<Rightarrow> nat \<Rightarrow> jsval" where
  "at (JArr xs) i = (if i < length xs then xs ! i else JUndefined)"
| "at (JObj kvs) i = (case map_of kvs (string_of_nat i) of Some v \<Rightarrow> v | None \<Rightarrow> JUndefined)"
| "at (JStr s) i = (if i < length s then JStr [s ! i] else JUndefined)"
| "at v i = JUndefined"

fun join_comma :: "string list \<Rightarrow> string" where
  "join_comma [] = ''''"
| "join_comma [p] = p"
| "join_comma (p # ps) = p @ '','' @ join_comma ps"

text \<open>The string a template literal \<open>`${v}`\<close> puts in place of a value.\<close>

fun template_str :: "jsval \<Rightarrow> string" where
  "template_str JUndefined = ''undefined''"
| "template_str JNull = ''null''"
| "template_str (JBool b) = (if b then ''true'' else ''false'')"
| "template_str (JNum n) = string_of_int n"
| "template_str (JStr s) = s"
| "template_str (JArr xs) =
     join_comma (map (\<lambda>x. if nullish x then '''' else template_str x) xs)"
| "template_str (JObj kvs) = ''[object Object]''"

text \<open>An optional string of the configuration is used when it is present and not empty.\<close>

definition truthy_str :: "string option \<Rightarrow> bool" where
  "truthy_str s = (case s of None \<Rightarrow> False | Some t \<Rightarrow> t \<noteq> '''')"

text \<open>The string an optional string converts to (\<open>undefined\<close> when it is missing).\<close>

definition opt_str :: "string option \<Rightarrow> string" where
  "opt_str s = (case s of None \<Rightarrow> ''undefined'' | Some t \<Rightarrow> t)"

section \<open>Configuration, session and transport\<close>

record Config =
  clientId :: string
  clientSecret :: string
  userAgent :: string
  username :: "string option"
  password :: "string option"
  refreshToken :: "string option"
  accessToken :: "string option"

text \<open>
  The client's own state. \<open>token\<close> is the field \<open>accessToken\<close> of the class (\<open>None\<close> is
  \<open>null\<close> or \<open>undefined\<close>); \<open>tokenExpiry\<close> is in milliseconds, \<open>None\<close> being \<open>NaN\<close>.
\<close>

record RedditClient =
  config :: Config
  token :: "string option"
  tokenExpiry :: "int option"

definition baseUrl :: string where
  "baseUrl = ''https://oauth.reddit.com''"

definition authUrl :: string where
  "authUrl = ''https://www.reddit.com/api/v1/access_token''"

record Request =
  url :: string
  http_method :: string
  headers :: "(string \<times> string) list"
  body :: "string option"

record 'a Response =
  status :: nat
  statusText :: string
  json :: "error + 'a"

definition ok :: "'a Response \<Rightarrow> bool" where
  "ok r = (200 \<le> status r \<and> status r < 300)"

text \<open>
  The body of a token response, read through its two fields: each is absent or of its
  documented JSON type (a string, a number of seconds).
\<close>

record TokenData =
  access_token :: "string option"
  expires_in :: "int option"

text \<open>
  What one operation sees of the outside: the two readings of \<open>Date.now()\<close> in
  \<open>authenticate\<close> (at the validity test, and when the expiry is stored) and the answers of
  the two hosts. \<open>Inl\<close> from a host is a rejected \<open>fetch\<close>.
\<close>

record World =
  now_check :: int
  now_store :: int
  fetch_auth :: "Request \<Rightarrow> error + TokenData Response"
  fetch_api :: "Request \<Rightarrow> error + jsval Response"

definition new_RedditClient :: "Config \<Rightarrow> RedditClient" where
  "new_RedditClient cfg =
     \<lparr> config = cfg,
       token = (if truthy_str (accessToken cfg) then accessToken cfg else None),
       tokenExpiry = Some 0 \<rparr>"

section \<open>authenticate\<close>

definition token_valid :: "RedditClient \<Rightarrow> int \<Rightarrow> bool" where
  "token_valid c now =
     (truthy_str (token c) \<and> (case tokenExpiry c of None \<Rightarrow> False | Some e \<Rightarrow> now < e))"

text \<open>The object given to \<open>URLSearchParams\<close> for the body of the token request.\<close>

definition grant_params :: "Config \<Rightarrow> (string \<times> string) list" where
  "grant_params cfg =
     (if truthy_str (refreshToken cfg) then
        [(''grant_type'', ''refresh_token''), (''refresh_token'', opt_str (refreshToken cfg))]
      else if truthy_str (username cfg) \<and> truthy_str (password cfg) then
        [(''grant_type'', ''password''), (''username'', opt_str (username cfg)),
         (''password'', opt_str (password cfg))]
      else
        [(''grant_type'', ''client_credentials'')])"

definition auth_request :: "Config \<Rightarrow> Request" where
  "auth_request cfg =
     \<lparr> url = authUrl,
       http_method = ''POST'',
       headers =
         [(''Authorization'', ''Basic '' @ base64 (clientId cfg @ '':'' @ clientSecret cfg)),
          (''Content-Type'', ''application/x-www-form-urlencoded''),
          (''User-Agent'', userAgent cfg)],
       body = Some (URLSearchParams_toString (grant_params cfg)) \<rparr>"

definition auth_failed :: "nat \<Rightarrow> string \<Rightarrow> error" where
  "auth_failed st reason = Error (''Authentication failed: '' @ string_of_nat st @ '' '' @ reason)"

text \<open>
  The result is what the promise settles to, the session afterwards, and the requests sent to
  the token endpoint, in order.
\<close>

definition authenticate :: "World \<Rightarrow> RedditClient \<Rightarrow> (error + unit) \<times> RedditClient \<times> Request list" where
  "authenticate w c =
     (if token_valid c (now_check w) then (Inr (), c, [])
      else
        let req = auth_request (config c) in
        case fetch_auth w req of
          Inl e \<Rightarrow> (Inl e, c, [req])
        | Inr response \<Rightarrow>
            if \<not> ok response then (Inl (auth_failed (status response) (statusText response)), c, [req])
            else
              (case json response of
                 Inl e \<Rightarrow> (Inl e, c, [req])
               | Inr data \<Rightarrow>
                   (Inr (),
                    c\<lparr> token := access_token data,
                       tokenExpiry :=
                         (case expires_in data of
                            None \<Rightarrow> None
                          | Some secs \<Rightarrow> Some (now_store w + secs * 1000 - 60000)) \<rparr>,
                    [req])))"

section \<open>makeRequest\<close>

text \<open>
  Every caller passes the endpoint alone, so \<open>options\<close> is the empty object: the method is
  \<open>fetch\<close>'s default and the headers are the three written in the source.
\<close>

definition api_request :: "RedditClient \<Rightarrow> string \<Rightarrow> Request" where
  "api_request c endpoint =
     \<lparr> url = baseUrl @ endpoint,
       http_method = ''GET'',
       headers =
         [(''Authorization'', ''Bearer '' @ opt_str (token c)),
          (''User-Agent'', userAgent (config c)),
          (''Content-Type'', ''application/json'')],
       body = None \<rparr>"

definition api_error :: "nat \<Rightarrow> string \<Rightarrow> error" where
  "api_error st reason = Error (''Reddit API error: '' @ string_of_nat st @ '' '' @ reason)"

definition makeRequest :: "World \<Rightarrow> RedditClient \<Rightarrow> string \<Rightarrow> (error + jsval) \<times> RedditClient \<times> Request list" where
  "makeRequest w c endpoint =
     (case authenticate w c of
        (Inl e, c', sent) \<Rightarrow> (Inl e, c', sent)
      | (Inr u, c', sent) \<Rightarrow>
          let req = api_request c' endpoint in
          (case fetch_api w req of
             Inl e \<Rightarrow> (Inl e, c', sent @ [req])
           | Inr response \<Rightarrow>
               if \<not> ok response then
                 (Inl (api_error (status response) (statusText response)), c', sent @ [req])
               else (json response, c', sent @ [req])))"

section \<open>Entities and their mappers\<close>

text \<open>
  At run time the fields copied from the payload hold whatever the payload holds, so they are
  values; the fields a template literal builds are strings. A field that is \<open>undefined\<close> is
  absent from the entity.
\<close>

record RedditPost =
  post_id :: jsval
  post_title :: jsval
  post_author :: jsval
  post_subreddit :: jsval
  post_url :: jsval
  post_selftext :: jsval
  post_created_utc :: jsval
  post_score :: jsval
  post_num_comments :: jsval
  post_permalink :: string
  post_is_self :: jsval
  post_domain :: jsval
  post_thumbnail :: jsval

record RedditComment =
  comment_id :: jsval
  comment_author :: jsval
  comment_body :: jsval
  comment_created_utc :: jsval
  comment_score :: jsval
  comment_permalink :: string
  comment_parent_id :: jsval
  comment_subreddit :: jsval

record RedditSubreddit =
  sub_display_name :: jsval
  sub_title :: jsval
  sub_description :: jsval
  sub_subscribers :: jsval
  sub_created_utc :: jsval
  sub_public_description :: jsval
  sub_url :: string
  sub_over18 :: jsval

record RedditUser =
  user_name :: jsval
  user_id :: jsval
  user_created_utc :: jsval
  user_comment_karma :: jsval
  user_link_karma :: jsval
  user_is_verified :: jsval
  user_has_verified_email :: jsval

definition mapPost :: "jsval \<Rightarrow> error + RedditPost" where
  "mapPost data =
     (if nullish data then Inl TypeError
      else Inr
        \<lparr> post_id = get data ''id'',
          post_title = get data ''title'',
          post_author = get data ''author'',
          post_subreddit = get data ''subreddit'',
          post_url = get data ''url'',
          post_selftext = (if truthy (get data ''selftext'') then get data ''selftext'' else JStr ''''),
          post_created_utc = get data ''created_utc'',
          post_score = get data ''score'',
          post_num_comments = get data ''num_comments'',
          post_permalink = ''https://reddit.com'' @ template_str (get data ''permalink''),
          post_is_self = get data ''is_self'',
          post_domain = get data ''domain'',
          post_thumbnail =
            (if get data ''thumbnail'' \<noteq> JStr ''self'' \<and> get data ''thumbnail'' \<noteq> JStr ''default''
             then get data ''thumbnail'' else JUndefined) \<rparr>)"

definition mapComment :: "jsval \<Rightarrow> error + RedditComment" where
  "mapComment data =
     (if nullish data then Inl TypeError
      else Inr
        \<lparr> comment_id = get data ''id'',
          comment_author = get data ''author'',
          comment_body = get data ''body'',
          comment_created_utc = get data ''created_utc'',
          comment_score = get data ''score'',
          comment_permalink = ''https://reddit.com'' @ template_str (get data ''permalink''),
          comment_parent_id = get data ''parent_id'',
          comment_subreddit = get data ''subreddit'' \<rparr>)"

definition mapSubreddit :: "jsval \<Rightarrow> error + RedditSubreddit" where
  "mapSubreddit data =
     (if nullish data then Inl TypeError
      else Inr
        \<lparr> sub_display_name = get data ''display_name'',
          sub_title = get data ''title'',
          sub_description = get data ''description'',
          sub_subscribers = get data ''subscribers'',
          sub_created_utc = get data ''created_utc'',
          sub_public_description = get data ''public_description'',
          sub_url = ''https://reddit.com/r/'' @ template_str (get data ''display_name''),
          sub_over18 = get data ''over18'' \<rparr>)"

definition mapUser :: "jsval \<Rightarrow> error + RedditUser" where
  "mapUser data =
     (if nullish data then Inl TypeError
      else Inr
        \<lparr> user_name = get data ''name'',
          user_id = get data ''id'',
          user_created_utc = get data ''created_utc'',
          user_comment_karma = get data ''comment_karma'',
          user_link_karma = get data ''link_karma'',
          user_is_verified = get data ''is_verified'',
          user_has_verified_email = get data ''has_verified_email'' \<rparr>)"

section \<open>extractComments\<close>

text \<open>
  What \<open>for (const child of children)\<close> walks: the elements of an array, the characters of
  a string (each a one-character string); any other value is not iterable.
\<close>

fun iterate :: "jsval \<Rightarrow> error + jsval list" where
  "iterate (JArr xs) = Inr xs"
| "iterate (JStr s) = Inr (map (\<lambda>c. JStr [c]) s)"
| "iterate v = Inl TypeError"

text \<open>A measure for the recursion: the nested children of a node weigh less than the node.\<close>

fun strlen :: "jsval \<Rightarrow> nat" where
  "strlen (JStr s) = length s"
| "strlen v = 0"

fun weight :: "jsval \<Rightarrow> nat" where
  "weight (JArr xs) = Suc (sum_list (map weight xs))"
| "weight (JObj kvs) = Suc (sum_list (map (\<lambda>kv. weight (snd kv) + strlen (snd kv)) kvs))"
| "weight v = 1"

lemma weight_pos: "0 < weight v"
  by (cases v) auto

lemma weight_map_of:
  "map_of kvs k = Some v \<Longrightarrow>
   weight v + strlen v \<le> sum_list (map (\<lambda>kv. weight (snd kv) + strlen (snd kv)) kvs)"
  by (induction kvs) (auto split: if_splits)

lemma weight_get: "truthy (get v k) \<Longrightarrow> weight (get v k) + strlen (get v k) < weight v"
  by (cases v) (auto split: option.splits dest: weight_map_of simp: less_Suc_eq_le)

lemma weight_iterate: "iterate v = Inr cs \<Longrightarrow> sum_list (map weight cs) \<le> weight v + strlen v"
  by (cases v) (auto simp: comp_def sum_list_triv)

lemma weight_replies:
  assumes "truthy (get child ''data'')"
    and "truthy (get (get child ''data'') ''replies'')"
    and "truthy (get (get (get child ''data'') ''replies'') ''data'')"
    and "truthy (get (get (get (get child ''data'') ''replies'') ''data'') ''children'')"
    and "iterate (get (get (get (get child ''data'') ''replies'') ''data'') ''children'') = Inr cs"
  shows "sum_list (map weight cs) < weight child"
  using weight_get [OF assms(1)] weight_get [OF assms(2)] weight_get [OF assms(3)]
    weight_get [OF assms(4)] weight_iterate [OF assms(5)]
  by linarith

text \<open>
  The loop over the elements of \<open>children\<close>, with the array \<open>comments\<close> passed along:
  \<open>push\<close> appends. Reading \<open>child.kind\<close> of a \<open>null\<close> element throws.
\<close>

function extractComments_loop :: "jsval list \<Rightarrow> RedditComment list \<Rightarrow> error + RedditComment list" where
  "extractComments_loop [] comments = Inr comments"
| "extractComments_loop (child # rest) comments =
     (if nullish child then Inl TypeError
      else if get child ''kind'' = JStr ''t1'' \<and> truthy (get child ''data'') then
        (case mapComment (get child ''data'') of
           Inl e \<Rightarrow> Inl e
         | Inr comment \<Rightarrow>
             let replies = get (get child ''data'') ''replies'' in
             if truthy replies \<and> truthy (get replies ''data'')
                \<and> truthy (get (get replies ''data'') ''children'') then
               (case iterate (get (get replies ''data'') ''children'') of
                  Inl e \<Rightarrow> Inl e
                | Inr children \<Rightarrow>
                    (case extractComments_loop children (comments @ [comment]) of
                       Inl e \<Rightarrow> Inl e
                     | Inr comments' \<Rightarrow> extractComments_loop rest comments'))
             else extractComments_loop rest (comments @ [comment]))
      else extractComments_loop rest comments)"
  by pat_completeness auto
termination
proof (relation "measure (\<lambda>(cs, acc). sum_list (map weight cs))", goal_cases)
  case 1
  show ?case by simp
next
  case 2
  then show ?case by (auto intro!: trans_less_add1 weight_replies)
next
  case 3
  then show ?case by (simp add: weight_pos)
next
  case 4
  then show ?case by (simp add: weight_pos)
next
  case 5
  then show ?case by (simp add: weight_pos)
qed

definition extractComments :: "jsval \<Rightarrow> RedditComment list \<Rightarrow> error + RedditComment list" where
  "extractComments children comments =
     (case iterate children of
        Inl e \<Rightarrow> Inl e
      | Inr cs \<Rightarrow> extractComments_loop cs comments)"

section \<open>Query operations\<close>

definition bind_err :: "error + 'a \<Rightarrow> ('a \<Rightarrow> error + 'b) \<Rightarrow> error + 'b" where
  "bind_err m f = (case m of Inl e \<Rightarrow> Inl e | Inr x \<Rightarrow> f x)"

text \<open>\<open>v.k\<close> and \<open>v[i]\<close> as expressions: reading from \<open>null\<close> or \<open>undefined\<close> throws.\<close>

definition member :: "jsval \<Rightarrow> string \<Rightarrow> error + jsval" where
  "member v k = (if nullish v then Inl TypeError else Inr (get v k))"

definition element :: "jsval \<Rightarrow> nat \<Rightarrow> error + jsval" where
  "element v i = (if nullish v then Inl TypeError else Inr (at v i))"

fun map_err :: "('a \<Rightarrow> error + 'b) \<Rightarrow> 'a list \<Rightarrow> error + 'b list" where
  "map_err f [] = Inr []"
| "map_err f (x # xs) =
     (case f x of
        Inl e \<Rightarrow> Inl e
      | Inr y \<Rightarrow> (case map_err f xs of Inl e \<Rightarrow> Inl e | Inr ys \<Rightarrow> Inr (y # ys)))"

text \<open>\<open>children.map(f)\<close>: only an array has the method.\<close>

definition array_map :: "jsval \<Rightarrow> (jsval \<Rightarrow> error + 'a) \<Rightarrow> error + 'a list" where
  "array_map children f = (case children of JArr xs \<Rightarrow> map_err f xs | _ \<Rightarrow> Inl TypeError)"

text \<open>A parameter with a default value: \<open>None\<close> is the argument left out.\<close>

definition dflt :: "'a \<Rightarrow> 'a option \<Rightarrow> 'a" where
  "dflt d x = (case x of None \<Rightarrow> d | Some v \<Rightarrow> v)"

text \<open>What a query method does with the awaited payload; an error of the request passes through.\<close>

definition then_map :: "(error + jsval) \<times> RedditClient \<times> Request list \<Rightarrow> (jsval \<Rightarrow> error + 'a)
    \<Rightarrow> (error + 'a) \<times> RedditClient \<times> Request list" where
  "then_map r f = (case r of (res, c', sent) \<Rightarrow> (bind_err res f, c', sent))"

text \<open>\<open>data.data.children.map((child) => f(child.data))\<close>\<close>

definition map_listing :: "(jsval \<Rightarrow> error + 'a) \<Rightarrow> jsval \<Rightarrow> error + 'a list" where
  "map_listing f data =
     bind_err (member data ''data'') (\<lambda>d.
     bind_err (member d ''children'') (\<lambda>children.
     array_map children (\<lambda>child. bind_err (member child ''data'') f)))"

text \<open>
  Each query method awaits \<open>makeRequest\<close> on a path built by a template literal, then maps
  the payload. The path of each method is named here.
\<close>

definition getSubredditPosts_endpoint :: "string \<Rightarrow> string option \<Rightarrow> int option \<Rightarrow> string" where
  "getSubredditPosts_endpoint subreddit sort' limit =
     ''/r/'' @ subreddit @ ''/'' @ dflt ''hot'' sort' @ ''?limit='' @ string_of_int (dflt 25 limit)"

definition getSubredditPosts :: "World \<Rightarrow> RedditClient \<Rightarrow> string \<Rightarrow> string option \<Rightarrow> int option
    \<Rightarrow> (error + RedditPost list) \<times> RedditClient \<times> Request list" where
  "getSubredditPosts w c subreddit sort' limit =
     then_map (makeRequest w c (getSubredditPosts_endpoint subreddit sort' limit))
       (map_listing mapPost)"

definition getPost_endpoint :: "string \<Rightarrow> string" where
  "getPost_endpoint postId = ''/comments/'' @ postId"

definition getPost :: "World \<Rightarrow> RedditClient \<Rightarrow> string
    \<Rightarrow> (error + RedditPost) \<times> RedditClient \<times> Request list" where
  "getPost w c postId =
     then_map (makeRequest w c (getPost_endpoint postId))
       (\<lambda>data.
          bind_err (element data 0) (\<lambda>first.
          bind_err (member first ''data'') (\<lambda>d.
          bind_err (member d ''children'') (\<lambda>children.
          bind_err (element children 0) (\<lambda>child.
          bind_err (member child ''data'') mapPost)))))"

definition getPostComments_endpoint :: "string \<Rightarrow> string option \<Rightarrow> string" where
  "getPostComments_endpoint postId sort' = ''/comments/'' @ postId @ ''?sort='' @ dflt ''best'' sort'"

definition getPostComments :: "World \<Rightarrow> RedditClient \<Rightarrow> string \<Rightarrow> string option
    \<Rightarrow> (error + RedditComment list) \<times> RedditClient \<times> Request list" where
  "getPostComments w c postId sort' =
     then_map (makeRequest w c (getPostComments_endpoint postId sort'))
       (\<lambda>data.
          if nullish data then Inl TypeError
          else if truthy (at data 1) \<and> truthy (get (at data 1) ''data'')
                  \<and> truthy (get (get (at data 1) ''data'') ''children'')
          then extractComments (get (get (at data 1) ''data'') ''children'') []
          else Inr [])"

definition getSubredditInfo_endpoint :: "string \<Rightarrow> string" where
  "getSubredditInfo_endpoint subreddit = ''/r/'' @ subreddit @ ''/about''"

definition getSubredditInfo :: "World \<Rightarrow> RedditClient \<Rightarrow> string
    \<Rightarrow> (error + RedditSubreddit) \<times> RedditClient \<times> Request list" where
  "getSubredditInfo w c subreddit =
     then_map (makeRequest w c (getSubredditInfo_endpoint subreddit))
       (\<lambda>data. bind_err (member data ''data'') mapSubreddit)"

definition getUserInfo_endpoint :: "string \<Rightarrow> string" where
  "getUserInfo_endpoint name = ''/user/'' @ name @ ''/about''"

definition getUserInfo :: "World \<Rightarrow> RedditClient \<Rightarrow> string
    \<Rightarrow> (error + RedditUser) \<times> RedditClient \<times> Request list" where
  "getUserInfo w c name =
     then_map (makeRequest w c (getUserInfo_endpoint name))
       (\<lambda>data. bind_err (member data ''data'') mapUser)"

definition getUserPosts_endpoint :: "string \<Rightarrow> string option \<Rightarrow> int option \<Rightarrow> string" where
  "getUserPosts_endpoint name sort' limit =
     ''/user/'' @ name @ ''/submitted?sort='' @ dflt ''new'' sort'
       @ ''&limit='' @ string_of_int (dflt 25 limit)"

definition getUserPosts :: "World \<Rightarrow> RedditClient \<Rightarrow> string \<Rightarrow> string option \<Rightarrow> int option
    \<Rightarrow> (error + RedditPost list) \<times> RedditClient \<times> Request list" where
  "getUserPosts w c name sort' limit =
     then_map (makeRequest w c (getUserPosts_endpoint name sort' limit))
       (map_listing mapPost)"

definition getUserComments_endpoint :: "string \<Rightarrow> string option \<Rightarrow> int option \<Rightarrow> string" where
  "getUserComments_endpoint name sort' limit =
     ''/user/'' @ name @ ''/comments?sort='' @ dflt ''new'' sort'
       @ ''&limit='' @ string_of_int (dflt 25 limit)"

definition getUserComments :: "World \<Rightarrow> RedditClient \<Rightarrow> string \<Rightarrow> string option \<Rightarrow> int option
    \<Rightarrow> (error + RedditComment list) \<times> RedditClient \<times> Request list" where
  "getUserComments w c name sort' limit =
     then_map (makeRequest w c (getUserComments_endpoint name sort' limit))
       (map_listing mapComment)"

text \<open>
  \<open>searchPosts(query, subreddit?, sort = 'relevance', time?, limit = 25)\<close>. The parameter
  \<open>time\<close> is a value: nothing checks at run time that it is one of the six strings of its
  declared type. A spread \<open>...(x && {k: v})\<close> adds the key when \<open>x\<close> is truthy and nothing
  otherwise.
\<close>

definition searchPosts_params :: "string \<Rightarrow> string option \<Rightarrow> string option \<Rightarrow> jsval \<Rightarrow> int option
    \<Rightarrow> (string \<times> string) list" where
  "searchPosts_params query subreddit sort' time limit =
     [(''q'', query),
      (''sort'', dflt ''relevance'' sort'),
      (''limit'', string_of_int (dflt 25 limit)),
      (''type'', ''link'')]
     @ (if truthy_str subreddit then [(''restrict_sr'', ''true'')] else [])
     @ (if truthy time then [(''t'', template_str time)] else [])"

definition searchPosts_endpoint :: "string \<Rightarrow> string option \<Rightarrow> string option \<Rightarrow> jsval \<Rightarrow> int option
    \<Rightarrow> string" where
  "searchPosts_endpoint query subreddit sort' time limit =
     (let searchPath = (if truthy_str subreddit then ''/r/'' @ opt_str subreddit @ ''/search''
                        else ''/search'')
      in searchPath @ ''?''
           @ URLSearchParams_toString (searchPosts_params query subreddit sort' time limit))"

definition searchPosts :: "World \<Rightarrow> RedditClient \<Rightarrow> string \<Rightarrow> string option \<Rightarrow> string option
    \<Rightarrow> jsval \<Rightarrow> int option \<Rightarrow> (error + RedditPost list) \<times> RedditClient \<times> Request list" where
  "searchPosts w c query subreddit sort' time limit =
     then_map (makeRequest w c (searchPosts_endpoint query subreddit sort' time limit))
       (map_listing mapPost)"

definition searchSubreddits_endpoint :: "string \<Rightarrow> int option \<Rightarrow> string" where
  "searchSubreddits_endpoint query limit =
     ''/subreddits/search?q='' @ encodeURIComponent query
       @ ''&limit='' @ string_of_int (dflt 25 limit)"

definition searchSubreddits :: "World \<Rightarrow> RedditClient \<Rightarrow> string \<Rightarrow> int option
    \<Rightarrow> (error + RedditSubreddit list) \<times> RedditClient \<times> Request list" where
  "searchSubreddits w c query limit =
     then_map (makeRequest w c (searchSubreddits_endpoint query limit))
       (map_listing mapSubreddit)"

section \<open>The tool \<open>search_posts\<close> of the server\<close>

text \<open>
  The arguments as \<open>SearchPostsSchema.parse\<close> returns them: \<open>sort\<close> and \<open>limit\<close> have
  their defaults filled in; the schema has no field for a time window.
\<close>

record SearchPostsArgs =
  arg_query :: string
  arg_subreddit :: "string option"
  arg_sort :: string
  arg_limit :: int

text \<open>
  The call of the handler's case \<open>'search_posts'\<close>:
  \<open>redditClient.searchPosts(args.query, args.subreddit, args.sort, args.limit)\<close>,
  four arguments, the fifth left out.
\<close>

definition search_posts_tool :: "World \<Rightarrow> RedditClient \<Rightarrow> SearchPostsArgs
    \<Rightarrow> (error + RedditPost list) \<times> RedditClient \<times> Request list" where
  "search_posts_tool w c args =
     searchPosts w c (arg_query args) (arg_subreddit args) (Some (arg_sort args))
       (JNum (arg_limit args)) None"

section \<open>Threads and their flattening in the specification\<close>

text \<open>
  The specification's view of a thread: a node is a comment with its replies, or a
  placeholder (a "load more" node, or any other node that is not a comment). Flattening is
  the depth-first pre-order walk: a comment, then the flattening of its replies, then its
  later siblings; a placeholder adds nothing.
\<close>

datatype node = CommentNode RedditComment "node list" | PlaceholderNode

fun flatten_spec :: "node list \<Rightarrow> RedditComment list" where
  "flatten_spec [] = []"
| "flatten_spec (CommentNode comment replies # siblings) =
     comment # flatten_spec replies @ flatten_spec siblings"
| "flatten_spec (PlaceholderNode # siblings) = flatten_spec siblings"

text \<open>How the payload tells a comment, and where it keeps the children of its replies.\<close>

definition is_comment :: "jsval \<Rightarrow> bool" where
  "is_comment child = (get child ''kind'' = JStr ''t1'' \<and> truthy (get child ''data''))"

definition reply_children :: "jsval \<Rightarrow> jsval option" where
  "reply_children child =
     (let replies = get (get child ''data'') ''replies'' in
      if truthy replies \<and> truthy (get replies ''data'')
         \<and> truthy (get (get replies ''data'') ''children'')
      then Some (get (get replies ''data'') ''children'') else None)"

text \<open>
  \<open>encodes children nodes\<close>: the elements of a raw children array, read as the code reads
  them, are the given thread: a comment element carries the comment \<open>mapComment\<close> makes of
  its data and, as replies, what the children of its replies encode (none when it has no such
  children); any other element that is an object or a primitive value is a placeholder.
\<close>

fun encodes :: "jsval list \<Rightarrow> node list \<Rightarrow> bool" where
  "encodes [] [] = True"
| "encodes (child # rest) (PlaceholderNode # siblings) =
     (\<not> nullish child \<and> \<not> is_comment child \<and> encodes rest siblings)"
| "encodes (child # rest) (CommentNode comment replies # siblings) =
     (is_comment child \<and> mapComment (get child ''data'') = Inr comment
      \<and> (case reply_children child of
            None \<Rightarrow> replies = []
          | Some children \<Rightarrow>
              (case iterate children of Inl e \<Rightarrow> False | Inr cs \<Rightarrow> encodes cs replies))
      \<and> encodes rest siblings)"
| "encodes [] (n # ns) = False"
| "encodes (child # rest) [] = False"

section \<open>Example inputs\<close>

definition cfg_token_only :: Config where
  "cfg_token_only =
     \<lparr> clientId = ''id'', clientSecret = ''secret'', userAgent = ''ua'', username = None,
       password = None, refreshToken = None, accessToken = Some ''tok'' \<rparr>"

definition cfg_all :: Config where
  "cfg_all =
     \<lparr> clientId = ''id'', clientSecret = ''secret'', userAgent = ''ua'', username = Some ''u'',
       password = Some ''p'', refreshToken = Some ''rt'', accessToken = Some ''tok'' \<rparr>"

definition token_ok :: "TokenData Response" where
  "token_ok =
     \<lparr> status = 200, statusText = ''OK'',
       json = Inr \<lparr> access_token = Some ''fresh'', expires_in = Some 3600 \<rparr> \<rparr>"

definition token_denied :: "TokenData Response" where
  "token_denied = \<lparr> status = 401, statusText = ''Unauthorized'', json = Inl SyntaxError \<rparr>"

definition api_down :: "jsval Response" where
  "api_down = \<lparr> status = 503, statusText = ''Service Unavailable'', json = Inl SyntaxError \<rparr>"

text \<open>A world whose clock reads 1730000000000 ms and whose token endpoint grants a token.\<close>

definition world_ok :: World where
  "world_ok =
     \<lparr> now_check = 1730000000000, now_store = 1730000000250,
       fetch_auth = (\<lambda>req. Inr token_ok), fetch_api = (\<lambda>req. Inr api_down) \<rparr>"

definition world_denied :: World where
  "world_denied =
     \<lparr> now_check = 1730000000000, now_store = 1730000000250,
       fetch_auth = (\<lambda>req. Inr token_denied), fetch_api = (\<lambda>req. Inr api_down) \<rparr>"

definition client_fresh :: RedditClient where
  "client_fresh = \<lparr> config = cfg_all, token = Some ''fresh'', tokenExpiry = Some 1730003540250 \<rparr>"



text \<open>The thread of the specification's example: A has the replies B and C, B has the reply D.\<close>

definition raw_comment :: "string \<Rightarrow> jsval \<Rightarrow> jsval" where
  "raw_comment name replies =
     JObj [(''kind'', JStr ''t1''),
           (''data'', JObj [(''id'', JStr name), (''replies'', replies)])]"

definition raw_listing :: "jsval list \<Rightarrow> jsval" where
  "raw_listing children =
     JObj [(''kind'', JStr ''Listing''), (''data'', JObj [(''children'', JArr children)])]"

definition raw_more :: jsval where
  "raw_more = JObj [(''kind'', JStr ''more''), (''data'', JObj [(''count'', JNum 3)])]"

definition comment_named :: "string \<Rightarrow> RedditComment" where
  "comment_named name =
     \<lparr> comment_id = JStr name, comment_author = JUndefined, comment_body = JUndefined,
       comment_created_utc = JUndefined, comment_score = JUndefined,
       comment_permalink = ''https://reddit.comundefined'', comment_parent_id = JUndefined,
       comment_subreddit = JUndefined \<rparr>"





definition raw_comment_no_data :: jsval where
  "raw_comment_no_data = JObj [(''kind'', JStr ''t1''), (''data'', JNull), (''replies'', raw_listing [raw_more])]"

section \<open>The session manager\<close>

lemma token_valid_new: "token_valid (new_RedditClient cfg) now = (truthy_str (accessToken cfg) \<and> now < 0)"
  by (auto simp: token_valid_def new_RedditClient_def truthy_str_def)



lemma authenticate_granted:
  assumes "\<not> token_valid c (now_check w)"
    and "fetch_auth w (auth_request (config c)) = Inr r"
    and "ok r"
    and "json r = Inr d"
  shows "authenticate w c =
     (Inr (),
      c\<lparr> token := access_token d,
         tokenExpiry := (case expires_in d of None \<Rightarrow> None
                         | Some secs \<Rightarrow> Some (now_store w + secs * 1000 - 60000)) \<rparr>,
      [auth_request (config c)])"
  using assms by (simp add: authenticate_def Let_def)

lemma authenticate_rejected:
  assumes "\<not> token_valid c (now_check w)"
    and "fetch_auth w (auth_request (config c)) = Inr r"
    and "\<not> ok r"
  shows "authenticate w c = (Inl (auth_failed (status r) (statusText r)), c, [auth_request (config c)])"
  using assms by (simp add: authenticate_def Let_def)

text \<open>
  C1. A pre-supplied access token is stored by the constructor with the expiry 0, so the
  validity test \<open>Date.now() < tokenExpiry\<close> fails at every clock reading that is not before
  the epoch: the first \<open>authenticate\<close> sends one request to the token endpoint and replaces
  the pre-supplied token by the one granted. Here: only an access token is configured, the
  clock reads 1730000000000 ms.
\<close>

theorem presupplied_token_replaced:
  "authenticate world_ok (new_RedditClient cfg_token_only) =
     (Inr (),
      \<lparr> config = cfg_token_only, token = Some ''fresh'', tokenExpiry = Some 1730003540250 \<rparr>,
      [auth_request cfg_token_only])
   \<and> map_of (grant_params cfg_token_only) ''grant_type'' = Some ''client_credentials''"
proof -
  have nv: "\<not> token_valid (new_RedditClient cfg_token_only) (now_check world_ok)"
    by (simp add: token_valid_new world_ok_def)
  have cfg: "config (new_RedditClient cfg_token_only) = cfg_token_only"
    by (simp add: new_RedditClient_def)
  have "authenticate world_ok (new_RedditClient cfg_token_only) =
     (Inr (),
      (new_RedditClient cfg_token_only)\<lparr> token := access_token \<lparr> access_token = Some ''fresh'', expires_in = Some 3600 \<rparr>,
         tokenExpiry := (case expires_in \<lparr> access_token = Some ''fresh'', expires_in = Some 3600 \<rparr> of None \<Rightarrow> None
                         | Some secs \<Rightarrow> Some (now_store world_ok + secs * 1000 - 60000)) \<rparr>,
      [auth_request (config (new_RedditClient cfg_token_only))])"
    by (rule authenticate_granted [OF nv, where r = token_ok])
       (simp_all add: world_ok_def token_ok_def ok_def)
  then have "authenticate world_ok (new_RedditClient cfg_token_only) =
     (Inr (),
      \<lparr> config = cfg_token_only, token = Some ''fresh'', tokenExpiry = Some 1730003540250 \<rparr>,
      [auth_request cfg_token_only])"
    by (simp add: new_RedditClient_def world_ok_def)
  moreover have "map_of (grant_params cfg_token_only) ''grant_type'' = Some ''client_credentials''"
    by (simp add: grant_params_def cfg_token_only_def truthy_str_def)
  ultimately show ?thesis by simp
qed





lemma makeRequest_auth_error:
  "authenticate w c = (Inl e, c', sent) \<Longrightarrow> makeRequest w c endpoint = (Inl e, c', sent)"
  by (simp add: makeRequest_def)

lemma then_map_error: "m = (Inl e, c', sent) \<Longrightarrow> then_map m f = (Inl e, c', sent)"
  by (simp add: then_map_def bind_err_def)

text \<open>
  C5. When the token endpoint answers a token request with a status outside 200..299,
  \<open>authenticate\<close> throws an \<open>Error\<close> whose message is \<open>Authentication failed:\<close> followed by
  the status and the reason, and the session is the one before the call (token and expiry
  untouched); \<open>makeRequest\<close> and each of the nine query methods end with that same error and
  that same session, having sent the token request only.
\<close>

theorem token_exchange_rejected:
  assumes "\<not> token_valid c (now_check w)"
    and "fetch_auth w (auth_request (config c)) = Inr r"
    and "\<not> ok r"
    and "e = Error (''Authentication failed: '' @ string_of_nat (status r) @ '' '' @ statusText r)"
    and "sent = [auth_request (config c)]"
  shows "authenticate w c = (Inl e, c, sent)
    \<and> makeRequest w c endpoint = (Inl e, c, sent)
    \<and> getSubredditPosts w c subreddit sort1 limit1 = (Inl e, c, sent)
    \<and> getPost w c postId = (Inl e, c, sent)
    \<and> getPostComments w c postId sort2 = (Inl e, c, sent)
    \<and> getSubredditInfo w c subreddit = (Inl e, c, sent)
    \<and> getUserInfo w c name = (Inl e, c, sent)
    \<and> getUserPosts w c name sort3 limit3 = (Inl e, c, sent)
    \<and> getUserComments w c name sort4 limit4 = (Inl e, c, sent)
    \<and> searchPosts w c query subreddit' sort5 time limit5 = (Inl e, c, sent)
    \<and> searchSubreddits w c query limit6 = (Inl e, c, sent)"
proof -
  have auth: "authenticate w c = (Inl e, c, sent)"
    using assms by (simp add: authenticate_rejected auth_failed_def)
  have req: "makeRequest w c ep = (Inl e, c, sent)" for ep
    by (rule makeRequest_auth_error [OF auth])
  have "getSubredditPosts w c subreddit sort1 limit1 = (Inl e, c, sent)"
    unfolding getSubredditPosts_def by (rule then_map_error [OF req])
  moreover have "getPost w c postId = (Inl e, c, sent)"
    unfolding getPost_def by (rule then_map_error [OF req])
  moreover have "getPostComments w c postId sort2 = (Inl e, c, sent)"
    unfolding getPostComments_def by (rule then_map_error [OF req])
  moreover have "getSubredditInfo w c subreddit = (Inl e, c, sent)"
    unfolding getSubredditInfo_def by (rule then_map_error [OF req])
  moreover have "getUserInfo w c name = (Inl e, c, sent)"
    unfolding getUserInfo_def by (rule then_map_error [OF req])
  moreover have "getUserPosts w c name sort3 limit3 = (Inl e, c, sent)"
    unfolding getUserPosts_def by (rule then_map_error [OF req])
  moreover have "getUserComments w c name sort4 limit4 = (Inl e, c, sent)"
    unfolding getUserComments_def by (rule then_map_error [OF req])
  moreover have "searchPosts w c query subreddit' sort5 time limit5 = (Inl e, c, sent)"
    unfolding searchPosts_def by (rule then_map_error [OF req])
  moreover have "searchSubreddits w c query limit6 = (Inl e, c, sent)"
    unfolding searchSubreddits_def by (rule then_map_error [OF req])
  ultimately show ?thesis using auth req by blast
qed

theorem token_exchange_rejected_witness:
  "\<not> token_valid (new_RedditClient cfg_all) (now_check world_denied)
   \<and> \<not> ok token_denied
   \<and> authenticate world_denied (new_RedditClient cfg_all) =
       (Inl (Error ''Authentication failed: 401 Unauthorized''), new_RedditClient cfg_all,
        [auth_request cfg_all])
   \<and> getPostComments world_denied (new_RedditClient cfg_all) ''abc'' None =
       (Inl (Error ''Authentication failed: 401 Unauthorized''), new_RedditClient cfg_all,
        [auth_request cfg_all])"
proof -
  have h1: "\<not> token_valid (new_RedditClient cfg_all) (now_check world_denied)"
    by (simp add: token_valid_new world_denied_def)
  have h2: "fetch_auth world_denied (auth_request (config (new_RedditClient cfg_all))) = Inr token_denied"
    by (simp add: world_denied_def)
  have h3: "\<not> ok token_denied"
    by (simp add: ok_def token_denied_def)
  have st: "string_of_nat 401 = ''401''"
    by code_simp
  have msg: "Error ''Authentication failed: 401 Unauthorized''
      = Error (''Authentication failed: '' @ string_of_nat (status token_denied) @ '' ''
                @ statusText token_denied)"
    by (simp add: token_denied_def st)
  have cfg: "config (new_RedditClient cfg_all) = cfg_all"
    by (simp add: new_RedditClient_def)
  have "authenticate world_denied (new_RedditClient cfg_all) =
       (Inl (Error ''Authentication failed: 401 Unauthorized''), new_RedditClient cfg_all,
        [auth_request (config (new_RedditClient cfg_all))])"
    and "getPostComments world_denied (new_RedditClient cfg_all) ''abc'' None =
       (Inl (Error ''Authentication failed: 401 Unauthorized''), new_RedditClient cfg_all,
        [auth_request (config (new_RedditClient cfg_all))])"
    using token_exchange_rejected [OF h1 h2 h3 msg refl, where postId = "''abc''" and ?sort2.0 = None]
    by blast+
  then show ?thesis using h1 h3 by (simp add: cfg)
qed

section \<open>The request executor\<close>

lemma makeRequest_sent:
  "authenticate w c = (Inr (), c', sent) \<Longrightarrow>
   snd (snd (makeRequest w c endpoint)) = sent @ [api_request c' endpoint]"
  by (simp add: makeRequest_def Let_def split: sum.split)

lemma then_map_sent: "snd (snd (then_map m f)) = snd (snd m)"
  by (simp add: then_map_def split: prod.split)

lemma makeRequest_api_error:
  assumes "authenticate w c = (Inr (), c', sent)"
    and "fetch_api w (api_request c' endpoint) = Inr r"
    and "\<not> ok r"
  shows "makeRequest w c endpoint =
     (Inl (api_error (status r) (statusText r)), c', sent @ [api_request c' endpoint])"
  using assms by (simp add: makeRequest_def Let_def)

text \<open>
  C7. After a successful \<open>authenticate\<close>, when the API host answers the request with a status
  outside 200..299, \<open>makeRequest\<close> throws an \<open>Error\<close> whose message is
  \<open>Reddit API error:\<close> followed by the status and the reason, whatever the body is (its
  \<open>json\<close> is not read, so a body that is not JSON changes nothing); exactly one request has
  gone to the API host; and each of the nine query methods ends with that same error, so with
  no entity.
\<close>

theorem api_error_surfaces:
  assumes "authenticate w c = (Inr (), c', sent)"
    and "fetch_api w (api_request c' endpoint) = Inr r"
    and "\<not> ok r"
    and "e = Error (''Reddit API error: '' @ string_of_nat (status r) @ '' '' @ statusText r)"
    and "out = sent @ [api_request c' endpoint]"
  shows "makeRequest w c endpoint = (Inl e, c', out)
    \<and> (getSubredditPosts_endpoint subreddit sort1 limit1 = endpoint \<longrightarrow>
          getSubredditPosts w c subreddit sort1 limit1 = (Inl e, c', out))
    \<and> (getPost_endpoint postId = endpoint \<longrightarrow> getPost w c postId = (Inl e, c', out))
    \<and> (getPostComments_endpoint postId sort2 = endpoint \<longrightarrow>
          getPostComments w c postId sort2 = (Inl e, c', out))
    \<and> (getSubredditInfo_endpoint subreddit = endpoint \<longrightarrow>
          getSubredditInfo w c subreddit = (Inl e, c', out))
    \<and> (getUserInfo_endpoint name = endpoint \<longrightarrow> getUserInfo w c name = (Inl e, c', out))
    \<and> (getUserPosts_endpoint name sort3 limit3 = endpoint \<longrightarrow>
          getUserPosts w c name sort3 limit3 = (Inl e, c', out))
    \<and> (getUserComments_endpoint name sort4 limit4 = endpoint \<longrightarrow>
          getUserComments w c name sort4 limit4 = (Inl e, c', out))
    \<and> (searchPosts_endpoint query subreddit' sort5 time limit5 = endpoint \<longrightarrow>
          searchPosts w c query subreddit' sort5 time limit5 = (Inl e, c', out))
    \<and> (searchSubreddits_endpoint query limit6 = endpoint \<longrightarrow>
          searchSubreddits w c query limit6 = (Inl e, c', out))"
proof -
  have req: "makeRequest w c endpoint = (Inl e, c', out)"
    using assms by (simp add: makeRequest_api_error api_error_def)
  have "getSubredditPosts w c subreddit sort1 limit1 = (Inl e, c', out)"
    if "getSubredditPosts_endpoint subreddit sort1 limit1 = endpoint"
    unfolding getSubredditPosts_def that by (rule then_map_error [OF req])
  moreover have "getPost w c postId = (Inl e, c', out)" if "getPost_endpoint postId = endpoint"
    unfolding getPost_def that by (rule then_map_error [OF req])
  moreover have "getPostComments w c postId sort2 = (Inl e, c', out)"
    if "getPostComments_endpoint postId sort2 = endpoint"
    unfolding getPostComments_def that by (rule then_map_error [OF req])
  moreover have "getSubredditInfo w c subreddit = (Inl e, c', out)"
    if "getSubredditInfo_endpoint subreddit = endpoint"
    unfolding getSubredditInfo_def that by (rule then_map_error [OF req])
  moreover have "getUserInfo w c name = (Inl e, c', out)" if "getUserInfo_endpoint name = endpoint"
    unfolding getUserInfo_def that by (rule then_map_error [OF req])
  moreover have "getUserPosts w c name sort3 limit3 = (Inl e, c', out)"
    if "getUserPosts_endpoint name sort3 limit3 = endpoint"
    unfolding getUserPosts_def that by (rule then_map_error [OF req])
  moreover have "getUserComments w c name sort4 limit4 = (Inl e, c', out)"
    if "getUserComments_endpoint name sort4 limit4 = endpoint"
    unfolding getUserComments_def that by (rule then_map_error [OF req])
  moreover have "searchPosts w c query subreddit' sort5 time limit5 = (Inl e, c', out)"
    if "searchPosts_endpoint query subreddit' sort5 time limit5 = endpoint"
    unfolding searchPosts_def that by (rule then_map_error [OF req])
  moreover have "searchSubreddits w c query limit6 = (Inl e, c', out)"
    if "searchSubreddits_endpoint query limit6 = endpoint"
    unfolding searchSubreddits_def that by (rule then_map_error [OF req])
  ultimately show ?thesis using req by blast
qed

lemma authenticate_world_ok:
  "authenticate world_ok (new_RedditClient cfg_all) = (Inr (), client_fresh, [auth_request cfg_all])"
proof -
  have nv: "\<not> token_valid (new_RedditClient cfg_all) (now_check world_ok)"
    by (simp add: token_valid_new world_ok_def)
  have "authenticate world_ok (new_RedditClient cfg_all) =
     (Inr (),
      (new_RedditClient cfg_all)\<lparr> token := access_token \<lparr> access_token = Some ''fresh'', expires_in = Some 3600 \<rparr>,
         tokenExpiry := (case expires_in \<lparr> access_token = Some ''fresh'', expires_in = Some 3600 \<rparr> of None \<Rightarrow> None
                         | Some secs \<Rightarrow> Some (now_store world_ok + secs * 1000 - 60000)) \<rparr>,
      [auth_request (config (new_RedditClient cfg_all))])"
    by (rule authenticate_granted [OF nv, where r = token_ok])
       (simp_all add: world_ok_def token_ok_def ok_def)
  then show ?thesis
    by (simp add: new_RedditClient_def world_ok_def client_fresh_def)
qed

theorem api_error_surfaces_witness:
  "authenticate world_ok (new_RedditClient cfg_all) = (Inr (), client_fresh, [auth_request cfg_all])
   \<and> fetch_api world_ok (api_request client_fresh ''/r/aww/about'') = Inr api_down
   \<and> \<not> ok api_down
   \<and> json api_down = Inl SyntaxError
   \<and> getSubredditInfo_endpoint ''aww'' = ''/r/aww/about''
   \<and> getSubredditInfo world_ok (new_RedditClient cfg_all) ''aww'' =
       (Inl (Error ''Reddit API error: 503 Service Unavailable''), client_fresh,
        [auth_request cfg_all, api_request client_fresh ''/r/aww/about''])"
proof -
  have h2: "fetch_api world_ok (api_request client_fresh ''/r/aww/about'') = Inr api_down"
    by (simp add: world_ok_def)
  have h3: "\<not> ok api_down"
    by (simp add: ok_def api_down_def)
  have st: "string_of_nat 503 = ''503''"
    by code_simp
  have msg: "Error ''Reddit API error: 503 Service Unavailable''
      = Error (''Reddit API error: '' @ string_of_nat (status api_down) @ '' '' @ statusText api_down)"
    by (simp add: api_down_def st)
  have out: "[auth_request cfg_all, api_request client_fresh ''/r/aww/about'']
      = [auth_request cfg_all] @ [api_request client_fresh ''/r/aww/about'']"
    by simp
  have ep: "getSubredditInfo_endpoint ''aww'' = ''/r/aww/about''"
    by (simp add: getSubredditInfo_endpoint_def)
  have "getSubredditInfo_endpoint ''aww'' = ''/r/aww/about'' \<longrightarrow>
      getSubredditInfo world_ok (new_RedditClient cfg_all) ''aww'' =
       (Inl (Error ''Reddit API error: 503 Service Unavailable''), client_fresh,
        [auth_request cfg_all, api_request client_fresh ''/r/aww/about''])"
    using api_error_surfaces [OF authenticate_world_ok h2 h3 msg out, where subreddit = "''aww''"]
    by blast
  then show ?thesis
    using authenticate_world_ok h2 h3 ep by (simp add: api_down_def)
qed

section \<open>The tool \<open>search_posts\<close>\<close>

lemma search_posts_tool_sent:
  "authenticate w c = (Inr (), c', sent) \<Longrightarrow>
   snd (snd (search_posts_tool w c args)) =
     sent @ [api_request c'
       (searchPosts_endpoint (arg_query args) (arg_subreddit args) (Some (arg_sort args))
          (JNum (arg_limit args)) None)]"
  by (simp add: search_posts_tool_def searchPosts_def then_map_sent makeRequest_sent)

text \<open>
  The handler gives \<open>args.limit\<close> to the fourth parameter of \<open>searchPosts\<close>, which is
  \<open>time\<close>; the fifth, \<open>limit\<close>, is left to its default. For a limit that is not 0 the
  query string is therefore \<open>limit=25\<close> and \<open>t=\<close> the caller's limit.
\<close>

lemma search_posts_tool_params:
  "arg_limit args \<noteq> 0 \<Longrightarrow>
   searchPosts_params (arg_query args) (arg_subreddit args) (Some (arg_sort args))
       (JNum (arg_limit args)) None =
     [(''q'', arg_query args), (''sort'', arg_sort args), (''limit'', ''25''), (''type'', ''link'')]
     @ (if truthy_str (arg_subreddit args) then [(''restrict_sr'', ''true'')] else [])
     @ [(''t'', string_of_int (arg_limit args))]"
proof -
  have "string_of_int 25 = ''25''"
    by code_simp
  then show "arg_limit args \<noteq> 0 \<Longrightarrow> ?thesis"
    by (simp add: searchPosts_params_def dflt_def)
qed

text \<open>
  C2. The tool called with the query \<open>cats\<close> and the limit 10, no subreddit, the default
  sort: the request to the API host asks for \<open>limit=25\<close> and for the time window \<open>t=10\<close>.
\<close>

theorem search_posts_limit_sent_as_time:
  "map url (snd (snd (search_posts_tool world_ok (new_RedditClient cfg_all)
       \<lparr> arg_query = ''cats'', arg_subreddit = None, arg_sort = ''relevance'', arg_limit = 10 \<rparr>)))
   = [''https://www.reddit.com/api/v1/access_token'',
      ''https://oauth.reddit.com/search?q=cats&sort=relevance&limit=25&type=link&t=10'']"
proof -
  have ep: "searchPosts_endpoint ''cats'' None (Some ''relevance'') (JNum 10) None
      = ''/search?q=cats&sort=relevance&limit=25&type=link&t=10''"
    by code_simp
  show ?thesis
    by (simp add: search_posts_tool_sent [OF authenticate_world_ok] ep)
       (simp add: auth_request_def api_request_def authUrl_def baseUrl_def)
qed

section \<open>The entity mapper\<close>





section \<open>The comment tree flattener\<close>

lemma loop_append:
  "extractComments_loop (xs @ ys) comments =
     bind_err (extractComments_loop xs comments) (extractComments_loop ys)"
proof (induction xs arbitrary: comments)
  case Nil
  show ?case by (simp add: bind_err_def)
next
  case (Cons x xs)
  show ?case
    by (simp add: Cons.IH Let_def bind_err_def split: sum.split)
qed

lemma loop_skip:
  "\<not> nullish child \<Longrightarrow> \<not> is_comment child \<Longrightarrow>
   extractComments_loop (child # rest) comments = extractComments_loop rest comments"
  by (auto simp: is_comment_def)

lemma loop_comment:
  assumes "is_comment child"
    and "mapComment (get child ''data'') = Inr comment"
  shows "extractComments_loop (child # rest) comments =
     (case reply_children child of
        None \<Rightarrow> extractComments_loop rest (comments @ [comment])
      | Some children \<Rightarrow>
          bind_err (iterate children) (\<lambda>cs.
          bind_err (extractComments_loop cs (comments @ [comment])) (extractComments_loop rest)))"
proof -
  have "\<not> nullish child"
    using assms(1) by (auto simp: is_comment_def nullish_def)
  then show ?thesis
    using assms
    by (auto simp: is_comment_def reply_children_def Let_def bind_err_def split: sum.split)
qed

declare extractComments_loop.simps(2) [simp del]

lemma loop_encodes:
  "encodes cs ns \<Longrightarrow> extractComments_loop cs comments = Inr (comments @ flatten_spec ns)"
proof (induction cs ns arbitrary: comments rule: encodes.induct)
  case 1
  show ?case by simp
next
  case (2 child rest siblings)
  then show ?case by (simp add: loop_skip)
next
  case (3 child rest comment replies siblings)
  from "3.prems" have c: "is_comment child" and m: "mapComment (get child ''data'') = Inr comment"
    and rest: "encodes rest siblings"
    by simp_all
  show ?case
  proof (cases "reply_children child")
    case None
    with "3.prems" have "replies = []" by simp
    then show ?thesis
      using None "3.IH"(2) [OF rest] by (simp add: loop_comment [OF c m])
  next
    case (Some children)
    with "3.prems" obtain kids where it: "iterate children = Inr kids" and k: "encodes kids replies"
      by (auto split: sum.splits)
    show ?thesis
      using "3.IH"(1) [OF Some it k] "3.IH"(2) [OF rest]
      by (simp add: loop_comment [OF c m] Some it bind_err_def)
  qed
next
  case (4 n ns)
  then show ?case by simp
next
  case (5 child rest)
  then show ?case by simp
qed



lemma extractComments_array: "extractComments (JArr cs) comments = extractComments_loop cs comments"
  by (simp add: extractComments_def)

lemma mapComment_named:
  "mapComment (JObj [(''id'', JStr name), (''replies'', replies)]) = Inr (comment_named name)"
  by (simp add: mapComment_def nullish_def comment_named_def)

lemma encodes_leaf:
  "encodes rest siblings \<Longrightarrow>
   encodes (raw_comment name (JStr '''') # rest) (CommentNode (comment_named name) [] # siblings)"
  by (simp add: raw_comment_def is_comment_def reply_children_def mapComment_named)







text \<open>
  C10. An element whose \<open>kind\<close> is \<open>t1\<close> and whose \<open>data\<close> is \<open>undefined\<close> (absent) or
  \<open>null\<close>: alone it leaves \<open>comments\<close> as it is and throws nothing; among siblings the
  result, comments or error, is the one of the same array without it, so nothing of it
  is read further and the siblings before and after it are processed as they would be.
\<close>

theorem comment_without_data_skipped:
  assumes "get child ''kind'' = JStr ''t1''"
    and "nullish (get child ''data'')"
  shows "extractComments (JArr [child]) comments = Inr comments
    \<and> extractComments (JArr (before @ child # after)) comments =
        extractComments (JArr (before @ after)) comments"
proof -
  have nn: "\<not> nullish child"
    using assms(1) by (auto simp: nullish_def)
  have nc: "\<not> is_comment child"
    using assms(2) by (auto simp: is_comment_def nullish_def)
  have skip: "extractComments_loop (child # rest) acc = extractComments_loop rest acc" for rest acc
    by (rule loop_skip [OF nn nc])
  have fn: "extractComments_loop (child # after) = extractComments_loop after"
    by (rule ext) (rule skip)
  have "extractComments_loop (before @ child # after) comments =
      extractComments_loop (before @ after) comments"
    by (simp only: loop_append fn)
  then show ?thesis
    by (simp add: extractComments_array skip)
qed

theorem comment_without_data_skipped_witness:
  "get raw_comment_no_data ''kind'' = JStr ''t1''
   \<and> nullish (get raw_comment_no_data ''data'')
   \<and> extractComments
        (JArr [raw_comment ''A'' (JStr ''''), raw_comment_no_data, raw_comment ''C'' (JStr '''')]) [] =
       Inr [comment_named ''A'', comment_named ''C'']"
proof -
  have k: "get raw_comment_no_data ''kind'' = JStr ''t1''"
    by (simp add: raw_comment_no_data_def)
  have d: "nullish (get raw_comment_no_data ''data'')"
    by (simp add: raw_comment_no_data_def nullish_def)
  have "encodes [raw_comment ''A'' (JStr ''''), raw_comment ''C'' (JStr '''')]
      [CommentNode (comment_named ''A'') [], CommentNode (comment_named ''C'') []]"
    by (intro encodes_leaf) simp
  from loop_encodes [OF this, of "[]"]
  have "extractComments_loop [raw_comment ''A'' (JStr ''''), raw_comment ''C'' (JStr '''')] [] =
      Inr [comment_named ''A'', comment_named ''C'']"
    by simp
  with comment_without_data_skipped [OF k d, of "[]" "[raw_comment ''A'' (JStr '''')]"
      "[raw_comment ''C'' (JStr '''')]"]
  show ?thesis using k d by (simp add: extractComments_array)
qed

end
